theory Spec2Isabelle
  imports Complex_Main "HOL-Library.Sublist"
begin

section \<open>JavaScript values used by the core\<close>

text \<open>
  A thrown value. \<open>Error m\<close> stands for every instance of \<open>Error\<close> that is not a
  \<open>ZodError\<close> (plain errors, driver errors, reference errors), with its message;
  \<open>ZodError\<close> carries the paths of its issues, and its message is rendered from them
  (the library's own wording is not modelled); \<open>NonError\<close> is any thrown value that is
  not an instance of \<open>Error\<close>.
\<close>

datatype thrown = Error string | ZodError "string list" | NonError

fun instanceof_Error :: "thrown \<Rightarrow> bool" where
  "instanceof_Error (Error m) = True"
| "instanceof_Error (ZodError issues) = True"
| "instanceof_Error NonError = False"

fun error_message :: "thrown \<Rightarrow> string" where
  "error_message (Error m) = m"
| "error_message (ZodError issues) = concat (map (\<lambda>p. ''invalid '' @ p @ ''; '') issues)"
| "error_message NonError = []"

text \<open>\<open>String.prototype.toLowerCase\<close> on the ASCII letters and \<open>includes\<close>.\<close>

definition toLowerCase_char :: "char \<Rightarrow> char" where
  "toLowerCase_char c =
     (if 65 \<le> (of_char c :: nat) \<and> (of_char c :: nat) \<le> 90 then char_of ((of_char c :: nat) + 32) else c)"

definition toLowerCase :: "string \<Rightarrow> string" where
  "toLowerCase s = map toLowerCase_char s"

fun includes_str :: "string \<Rightarrow> string \<Rightarrow> bool" where
  "includes_str [] pat = (pat = [])"
| "includes_str (c # cs) pat = (prefix pat (c # cs) \<or> includes_str cs pat)"

text \<open>\<open>String(n)\<close> for a non-negative integer and \<open>padStart\<close>.\<close>

definition digit_char :: "nat \<Rightarrow> char" where
  "digit_char d = ''0123456789'' ! d"

function String_nat :: "nat \<Rightarrow> string" where
  "String_nat n =
     (if n < 10 then [digit_char n] else String_nat (n div 10) @ [digit_char (n mod 10)])"
  by pat_completeness auto
termination
  by (relation "measure id") auto

declare String_nat.simps [simp del]

definition padStart :: "nat \<Rightarrow> char \<Rightarrow> string \<Rightarrow> string" where
  "padStart targetLength c s = replicate (targetLength - length s) c @ s"

text \<open>The double quote character, for template strings that contain it.\<close>

definition dquote :: char where
  "dquote = CHR 0x22"

text \<open>
  The result of a JavaScript division or multiplication that may leave the finite
  numbers. Finite values are exact rationals: binary floating point is not modelled.
\<close>

datatype jsnum = Num rat | NaN | PosInfinity | NegInfinity

definition js_div :: "rat \<Rightarrow> rat \<Rightarrow> jsnum" where
  "js_div a b =
     (if b = 0 then (if a = 0 then NaN else if 0 < a then PosInfinity else NegInfinity)
      else Num (a / b))"

fun js_times :: "jsnum \<Rightarrow> rat \<Rightarrow> jsnum" where
  "js_times (Num a) b = Num (a * b)"
| "js_times NaN b = NaN"
| "js_times PosInfinity b = (if b = 0 then NaN else if 0 < b then PosInfinity else NegInfinity)"
| "js_times NegInfinity b = (if b = 0 then NaN else if 0 < b then NegInfinity else PosInfinity)"

text \<open>Values as they arrive in an untyped parameter map or a request body.\<close>

datatype json =
    JUndefined
  | JNull
  | JBool bool
  | JNum rat
  | JStr string
  | JArr "json list"
  | JObj "(string \<times> json) list"

definition property :: "(string \<times> json) list \<Rightarrow> string \<Rightarrow> json" where
  "property kvs k = (case map_of kvs k of None \<Rightarrow> JUndefined | Some v \<Rightarrow> v)"

section \<open>The ledger store (lib/db/schema.ts)\<close>

text \<open>
  Identifiers are uuids generated by the database; they are modelled as natural numbers
  drawn from a counter, so that a generated identifier is fresh. Timestamps are
  milliseconds. A \<open>decimal(p, s)\<close> column holds an integer number of units of
  \<open>10\<^sup>-\<^sup>s\<close>: a written value is rounded to the scale, half away from zero, and rejected
  when it does not fit the precision.
\<close>

definition round_half_away :: "rat \<Rightarrow> int" where
  "round_half_away x = (if 0 \<le> x then \<lfloor>x + 1 / 2\<rfloor> else - \<lfloor>- x + 1 / 2\<rfloor>)"

definition to_decimal :: "nat \<Rightarrow> nat \<Rightarrow> rat \<Rightarrow> thrown + int" where
  "to_decimal p s x =
     (let v = round_half_away (x * 10 ^ s)
      in if \<bar>v\<bar> < 10 ^ p then Inr v else Inl (Error ''numeric field overflow''))"

definition Number_decimal :: "nat \<Rightarrow> int \<Rightarrow> rat" where
  "Number_decimal s v = of_int v / 10 ^ s"

datatype invoice_status = DRAFT | SENT | PAID | OVERDUE | CANCELLED

record user_row =
  user_id :: nat

record client_row =
  client_id :: nat
  client_userId :: nat
  client_name :: string

record invoice_row =
  invoice_id :: nat
  invoice_userId :: nat
  invoice_clientId :: nat
  invoiceNumber :: string
  invoice_currency :: string
  invoice_vatIncluded :: bool
  invoice_vatRate :: int
  invoice_status :: invoice_status
  invoice_dueDate :: int
  invoice_paidAt :: "int option"

record item_row =
  item_id :: nat
  item_invoiceId :: nat
  item_description :: string
  item_quantity :: int
  item_unitPrice :: int
  item_lineTotal :: "int option"

record payment_row =
  payment_id :: nat
  payment_invoiceId :: nat
  payment_amount :: int
  payment_method :: string
  payment_paidAt :: int

record expense_row =
  expense_id :: nat
  expense_userId :: nat
  expense_description :: string
  expense_amount :: int
  expense_category :: string
  expense_date :: int
  expense_vatAmount :: "int option"

record store =
  users :: "user_row list"
  clients :: "client_row list"
  invoices :: "invoice_row list"
  invoiceItems :: "item_row list"
  payments :: "payment_row list"
  expenses :: "expense_row list"
  next_id :: nat

text \<open>\<open>invoice_number\<close> is declared \<open>unique()\<close>: over the whole table, not per user.\<close>

definition unique_violation :: string where
  "unique_violation =
     ''duplicate key value violates unique constraint '' @ [dquote]
       @ ''invoices_invoice_number_unique'' @ [dquote]"

definition insert_client :: "store \<Rightarrow> nat \<Rightarrow> string \<Rightarrow> client_row \<times> store" where
  "insert_client s userId name =
     (let row = \<lparr>client_id = next_id s, client_userId = userId, client_name = name\<rparr>
      in (row, s\<lparr>clients := clients s @ [row], next_id := next_id s + 1\<rparr>))"

text \<open>
  The block "Get or create client", the same in every path that creates an invoice: the
  first client of the user with that name, inserted when there is none.
\<close>

definition get_or_create_client :: "store \<Rightarrow> nat \<Rightarrow> string \<Rightarrow> client_row \<times> store" where
  "get_or_create_client s userId name =
     (case take 1 (filter (\<lambda>c. client_userId c = userId \<and> client_name c = name)
                     (clients s)) of
        [] \<Rightarrow> insert_client s userId name
      | c # cs \<Rightarrow> (c, s))"

definition insert_invoice ::
  "store \<Rightarrow> nat \<Rightarrow> nat \<Rightarrow> string \<Rightarrow> string \<Rightarrow> bool \<Rightarrow> rat \<Rightarrow> invoice_status \<Rightarrow> int
     \<Rightarrow> thrown + invoice_row \<times> store" where
  "insert_invoice s userId clientId number cur vatIncl vatRate st due =
     (case to_decimal 5 4 vatRate of
        Inl e \<Rightarrow> Inl e
      | Inr rate \<Rightarrow>
          if number \<in> set (map invoiceNumber (invoices s)) then Inl (Error unique_violation)
          else
            (let row = \<lparr>invoice_id = next_id s, invoice_userId = userId,
                        invoice_clientId = clientId, invoiceNumber = number,
                        invoice_currency = cur, invoice_vatIncluded = vatIncl,
                        invoice_vatRate = rate, invoice_status = st, invoice_dueDate = due,
                        invoice_paidAt = None\<rparr>
             in Inr (row, s\<lparr>invoices := invoices s @ [row], next_id := next_id s + 1\<rparr>)))"

definition insert_invoiceItem ::
  "store \<Rightarrow> nat \<Rightarrow> string \<Rightarrow> int \<Rightarrow> rat \<Rightarrow> rat \<Rightarrow> thrown + item_row \<times> store" where
  "insert_invoiceItem s invoiceId descr qty unitPrice lineTotal =
     (case to_decimal 12 2 unitPrice of
        Inl e \<Rightarrow> Inl e
      | Inr up \<Rightarrow>
          (case to_decimal 12 2 lineTotal of
             Inl e \<Rightarrow> Inl e
           | Inr lt \<Rightarrow>
               (let row = \<lparr>item_id = next_id s, item_invoiceId = invoiceId,
                           item_description = descr, item_quantity = qty,
                           item_unitPrice = up, item_lineTotal = Some lt\<rparr>
                in Inr (row, s\<lparr>invoiceItems := invoiceItems s @ [row],
                                next_id := next_id s + 1\<rparr>))))"

definition insert_payment ::
  "store \<Rightarrow> nat \<Rightarrow> rat \<Rightarrow> string \<Rightarrow> int \<Rightarrow> thrown + payment_row \<times> store" where
  "insert_payment s invoiceId amount method paidAt =
     (case to_decimal 12 2 amount of
        Inl e \<Rightarrow> Inl e
      | Inr a \<Rightarrow>
          (let row = \<lparr>payment_id = next_id s, payment_invoiceId = invoiceId,
                      payment_amount = a, payment_method = method, payment_paidAt = paidAt\<rparr>
           in Inr (row, s\<lparr>payments := payments s @ [row], next_id := next_id s + 1\<rparr>)))"

definition update_invoice_paid :: "store \<Rightarrow> nat \<Rightarrow> int \<Rightarrow> store" where
  "update_invoice_paid s invoiceId now =
     s\<lparr>invoices :=
         map (\<lambda>i. if invoice_id i = invoiceId
                   then i\<lparr>invoice_status := PAID, invoice_paidAt := Some now\<rparr> else i)
           (invoices s)\<rparr>"

section \<open>Parameter schemas (zod)\<close>

definition z_string :: "json \<Rightarrow> string option" where
  "z_string v = (case v of JStr x \<Rightarrow> Some x | _ \<Rightarrow> None)"

definition z_number_positive :: "json \<Rightarrow> rat option" where
  "z_number_positive v = (case v of JNum x \<Rightarrow> (if 0 < x then Some x else None) | _ \<Rightarrow> None)"

definition z_boolean :: "json \<Rightarrow> bool option" where
  "z_boolean v = (case v of JBool b \<Rightarrow> Some b | _ \<Rightarrow> None)"

definition z_default :: "'a \<Rightarrow> (json \<Rightarrow> 'a option) \<Rightarrow> json \<Rightarrow> 'a option" where
  "z_default d inner v = (case v of JUndefined \<Rightarrow> Some d | _ \<Rightarrow> inner v)"

definition issue :: "string \<Rightarrow> 'a option \<Rightarrow> string list" where
  "issue path r = (case r of None \<Rightarrow> [path] | Some x \<Rightarrow> [])"

text \<open>\<open>CreateInvoiceSchema\<close> of lib/ai/service.ts.\<close>

record CreateInvoiceParams =
  p_clientName :: string
  p_amount :: rat
  p_description :: string
  p_dueInDays :: rat
  p_vatIncluded :: bool

definition CreateInvoiceSchema_parse :: "json \<Rightarrow> thrown + CreateInvoiceParams" where
  "CreateInvoiceSchema_parse params =
     (case params of
        JObj kvs \<Rightarrow>
          (let clientName = z_string (property kvs ''clientName'');
               amount = z_number_positive (property kvs ''amount'');
               description = z_string (property kvs ''description'');
               dueInDays = z_default 30 z_number_positive (property kvs ''dueInDays'');
               vatIncluded = z_default True z_boolean (property kvs ''vatIncluded'')
           in case (clientName, amount, description, dueInDays, vatIncluded) of
                (Some c, Some a, Some d, Some n, Some v) \<Rightarrow>
                  Inr \<lparr>p_clientName = c, p_amount = a, p_description = d, p_dueInDays = n,
                       p_vatIncluded = v\<rparr>
              | _ \<Rightarrow>
                  Inl (ZodError (issue ''clientName'' clientName @ issue ''amount'' amount
                         @ issue ''description'' description @ issue ''dueInDays'' dueInDays
                         @ issue ''vatIncluded'' vatIncluded)))
      | _ \<Rightarrow> Inl (ZodError [[]]))"

text \<open>
  \<open>MarkPaidSchema\<close> of the mark-paid route: \<open>userId\<close> is a string in uuid format.
  \<open>uuid_of\<close> reads the text of a uuid (\<open>None\<close> when the text is not one).
\<close>

definition MarkPaidSchema_parse :: "(string \<Rightarrow> nat option) \<Rightarrow> json \<Rightarrow> thrown + nat" where
  "MarkPaidSchema_parse uuid_of body =
     (case body of
        JObj kvs \<Rightarrow>
          (case property kvs ''userId'' of
             JStr x \<Rightarrow> (case uuid_of x of Some u \<Rightarrow> Inr u | None \<Rightarrow> Inl (ZodError [''userId'']))
           | _ \<Rightarrow> Inl (ZodError [''userId'']))
      | _ \<Rightarrow> Inl (ZodError [[]]))"

section \<open>AIService (lib/ai/service.ts)\<close>

subsection \<open>processQuery\<close>

record query_result =
  qr_intent :: string
  qr_confidence :: rat
  qr_parameters :: "(string \<times> json) list"
  qr_response :: string
  qr_actions :: "string list"

text \<open>
  \<open>generateObject\<close> is the call to the language model: given the prompt it returns the
  structured object or throws.
\<close>

definition processQuery ::
  "(string \<Rightarrow> thrown + query_result) \<Rightarrow> nat \<Rightarrow> string \<Rightarrow> thrown + query_result" where
  "processQuery generateObject userId message =
     (case generateObject (''User query: '' @ [dquote] @ message @ [dquote]) of
        Inr object \<Rightarrow> Inr object
      | Inl error \<Rightarrow>
          Inr \<lparr>qr_intent = ''HELP'', qr_confidence = 0, qr_parameters = [],
               qr_response = ''I had trouble understanding your request. Please try again.'',
               qr_actions = []\<rparr>)"

subsection \<open>createInvoice\<close>

text \<open>
  The three amounts of invoice creation, with the constant \<open>vatRate\<close> as an argument:
  \<open>(subtotal, vatAmount, total)\<close>.
\<close>

definition invoice_amounts :: "rat \<Rightarrow> bool \<Rightarrow> rat \<Rightarrow> rat \<times> rat \<times> rat" where
  "invoice_amounts vatRate vatIncluded amount =
     (let subtotal = (if vatIncluded then amount / (1 + vatRate) else amount);
          vatAmount = (if vatIncluded then amount - subtotal else amount * vatRate);
          total = (if vatIncluded then amount else amount + vatAmount)
      in (subtotal, vatAmount, total))"

definition invoiceNumber_of :: "nat \<Rightarrow> string" where
  "invoiceNumber_of invoiceCount =
     ''INV-'' @ padStart 4 (CHR ''0'') (String_nat (invoiceCount + 1))"

text \<open>\<open>dueDate.setDate(dueDate.getDate() + dueInDays)\<close>, on days of 24 hours.\<close>

definition addDays :: "int \<Rightarrow> rat \<Rightarrow> int" where
  "addDays now days = now + \<lfloor>days\<rfloor> * 86400000"

text \<open>\<open>Number(x.toFixed(2))\<close>.\<close>

definition toFixed2 :: "rat \<Rightarrow> rat" where
  "toFixed2 x = of_int (round_half_away (x * 100)) / 100"

record amounts =
  amt_subtotal :: rat
  amt_vatAmount :: rat
  amt_total :: rat

datatype createInvoiceResult =
    CreateInvoiceOk invoice_row client_row amounts
  | CreateInvoiceFailed string

fun success :: "createInvoiceResult \<Rightarrow> bool" where
  "success (CreateInvoiceOk invoice client amts) = True"
| "success (CreateInvoiceFailed message) = False"

text \<open>
  The body of the \<open>try\<close> block. The store is returned also when the body throws: the
  rows written before the throw stay written (there is no transaction). Every
  \<open>new Date()\<close> of one call reads the same instant \<open>now\<close>. The text of the success
  message, rendered from the invoice number, the client name and the total, is left out
  of the result.
\<close>

definition createInvoice_try ::
  "int \<Rightarrow> store \<Rightarrow> nat \<Rightarrow> json \<Rightarrow> (thrown + createInvoiceResult) \<times> store" where
  "createInvoice_try now s userId params =
     (case CreateInvoiceSchema_parse params of
        Inl e \<Rightarrow> (Inl e, s)
      | Inr validatedParams \<Rightarrow>
          if take 1 (filter (\<lambda>u. user_id u = userId) (users s)) = []
          then (Inl (Error ''User not found''), s)
          else
            (let (client, s1) = get_or_create_client s userId (p_clientName validatedParams);
                 vatRate = 15 / 100;
                 (subtotal, vatAmount, total) =
                   invoice_amounts vatRate (p_vatIncluded validatedParams)
                     (p_amount validatedParams);
                 invoiceCount = filter (\<lambda>i. invoice_userId i = userId) (invoices s1);
                 number = invoiceNumber_of (length invoiceCount);
                 dueDate = addDays now (p_dueInDays validatedParams)
             in case insert_invoice s1 userId (client_id client) number ''ZAR''
                       (p_vatIncluded validatedParams) vatRate DRAFT dueDate of
                  Inl e \<Rightarrow> (Inl e, s1)
                | Inr (newInvoice, s2) \<Rightarrow>
                    (case insert_invoiceItem s2 (invoice_id newInvoice)
                            (p_description validatedParams) 1 subtotal subtotal of
                       Inl e \<Rightarrow> (Inl e, s2)
                     | Inr (item, s3) \<Rightarrow>
                         (Inr (CreateInvoiceOk newInvoice client
                                 \<lparr>amt_subtotal = toFixed2 subtotal,
                                  amt_vatAmount = toFixed2 vatAmount,
                                  amt_total = toFixed2 total\<rparr>), s3))))"

definition createInvoice :: "int \<Rightarrow> store \<Rightarrow> nat \<Rightarrow> json \<Rightarrow> createInvoiceResult \<times> store" where
  "createInvoice now s userId params =
     (case createInvoice_try now s userId params of
        (Inr result, s') \<Rightarrow> (result, s')
      | (Inl error, s') \<Rightarrow>
          (CreateInvoiceFailed
             ''Sorry, there was an error creating your invoice. Please try again.'', s'))"

section \<open>The mark-paid route (app/api/invoices/[id]/mark-paid/route.ts)\<close>

datatype mark_paid_body =
    ErrorBody string
  | InvalidBody "string list"
  | PaidBody nat rat int

datatype response = Json mark_paid_body nat

text \<open>
  The body of the \<open>try\<close> block of \<open>POST\<close>. \<open>req_json\<close> is the parsed request body,
  \<open>None\<close> when the body is not JSON; \<open>id_param\<close> is the \<open>[id]\<close> segment of the path.
  A response returned inside the block is \<open>Inr\<close>, a throw is \<open>Inl\<close>. The local
  \<open>vatAmount\<close> enters the total only when VAT is not included. Every \<open>new Date()\<close> of
  one request reads the same instant \<open>now\<close>.
\<close>

definition POST_mark_paid_try ::
  "(string \<Rightarrow> nat option) \<Rightarrow> int \<Rightarrow> store \<Rightarrow> json option \<Rightarrow> string
     \<Rightarrow> (thrown + response) \<times> store" where
  "POST_mark_paid_try uuid_of now s req_json id_param =
     (case req_json of
        None \<Rightarrow> (Inl (Error ''Unexpected end of JSON input''), s)
      | Some body \<Rightarrow>
          (case MarkPaidSchema_parse uuid_of body of
             Inl e \<Rightarrow> (Inl e, s)
           | Inr userId \<Rightarrow>
               (case uuid_of id_param of
                  None \<Rightarrow> (Inl (Error ''invalid input syntax for type uuid''), s)
                | Some invoiceId \<Rightarrow>
                    (case take 1 (filter (\<lambda>i. invoice_id i = invoiceId
                                            \<and> invoice_userId i = userId) (invoices s)) of
                       [] \<Rightarrow> (Inr (Json (ErrorBody ''Invoice not found'') 404), s)
                     | invoice # rest \<Rightarrow>
                         if invoice_status invoice = PAID
                         then (Inr (Json (ErrorBody ''Invoice is already paid'') 400), s)
                         else
                           (let items = filter (\<lambda>it. item_invoiceId it = invoiceId)
                                          (invoiceItems s);
                                subtotal =
                                  foldl (\<lambda>sum item. sum
                                           + (case item_lineTotal item of
                                                None \<Rightarrow> 0
                                              | Some v \<Rightarrow> Number_decimal 2 v)) 0 items;
                                vatRate = Number_decimal 4 (invoice_vatRate invoice);
                                vatAmount =
                                  (if invoice_vatIncluded invoice
                                   then subtotal * (vatRate / (1 + vatRate))
                                   else subtotal * vatRate);
                                total = (if invoice_vatIncluded invoice then subtotal
                                         else subtotal + vatAmount);
                                s1 = update_invoice_paid s invoiceId now
                            in case insert_payment s1 invoiceId total ''Manual'' now of
                                 Inl e \<Rightarrow> (Inl e, s1)
                               | Inr (payment, s2) \<Rightarrow>
                                   (Inr (Json (PaidBody invoiceId total now) 200), s2))))))"

definition POST_mark_paid ::
  "(string \<Rightarrow> nat option) \<Rightarrow> int \<Rightarrow> store \<Rightarrow> json option \<Rightarrow> string \<Rightarrow> response \<times> store" where
  "POST_mark_paid uuid_of now s req_json id_param =
     (case POST_mark_paid_try uuid_of now s req_json id_param of
        (Inr res, s') \<Rightarrow> (res, s')
      | (Inl (ZodError issues), s') \<Rightarrow> (Json (InvalidBody issues) 400, s')
      | (Inl error, s') \<Rightarrow> (Json (ErrorBody ''Failed to mark invoice as paid'') 500, s'))"

section \<open>The workflow engine\<close>

subsection \<open>Steps and context\<close>

datatype period = month | quarter | year

datatype reportType = financial_summary | vat_report | profit_loss

record CreateInvoiceStep =
  step_userId :: nat
  step_clientName :: string
  step_amount :: rat
  step_description :: string
  step_dueInDays :: rat

datatype WorkflowStep =
    create_invoice CreateInvoiceStep
  | log_expense nat rat string string "string option"
  | generate_report nat period reportType

record 'r WorkflowContext =
  ctx_userId :: nat
  steps :: "WorkflowStep list"
  currentStep :: nat
  results :: "string \<rightharpoonup> 'r"
  errors :: "string \<rightharpoonup> string"

text \<open>The constructor: the context starts at step 0 with empty maps.\<close>

definition new_WorkflowEngine :: "nat \<Rightarrow> WorkflowStep list \<Rightarrow> 'r WorkflowContext" where
  "new_WorkflowEngine userId stepList =
     \<lparr>ctx_userId = userId, steps = stepList, currentStep = 0, results = Map.empty,
      errors = Map.empty\<rparr>"

text \<open>The key \<open>`step_${currentStep}`\<close> of the results and errors maps.\<close>

definition step_key :: "nat \<Rightarrow> string" where
  "step_key i = ''step_'' @ String_nat i"

definition isRetriableError :: "thrown \<Rightarrow> bool" where
  "isRetriableError error =
     (if instanceof_Error error then
        (let message = toLowerCase (error_message error)
         in includes_str message ''timeout'' \<or> includes_str message ''network''
            \<or> includes_str message ''connection'' \<or> includes_str message ''rate limit'')
      else False)"

definition errorMessage :: "thrown \<Rightarrow> string" where
  "errorMessage error = (if instanceof_Error error then error_message error else ''Unknown error'')"

subsection \<open>execute\<close>

text \<open>
  The state of one call of \<open>execute\<close>: the context, the local \<open>retryCount\<close>, the world
  the steps act on, and the arguments of the calls of \<open>delay\<close> so far (milliseconds, in
  order). \<open>executeStep\<close> is the method of that name: it runs a step on the world and
  returns its result or what it throws. Console output is left out.
\<close>

definition maxRetries :: nat where
  "maxRetries = 3"

record ('w, 'r) engine =
  ctx :: "'r WorkflowContext"
  retryCount :: nat
  world :: 'w
  delays :: "nat list"

definition on_success :: "('w, 'r) engine \<Rightarrow> 'r \<Rightarrow> 'w \<Rightarrow> ('w, 'r) engine" where
  "on_success e result w =
     e\<lparr>ctx := (ctx e)\<lparr>results := (results (ctx e))(step_key (currentStep (ctx e)) \<mapsto> result),
                        currentStep := currentStep (ctx e) + 1\<rparr>,
       retryCount := 0, world := w\<rparr>"

definition on_error :: "('w, 'r) engine \<Rightarrow> thrown \<Rightarrow> 'w \<Rightarrow> ('w, 'r) engine" where
  "on_error e error w =
     e\<lparr>ctx := (ctx e)\<lparr>errors := (errors (ctx e))(step_key (currentStep (ctx e))
                                                    \<mapsto> errorMessage error)\<rparr>,
       world := w\<rparr>"

definition on_retry :: "('w, 'r) engine \<Rightarrow> ('w, 'r) engine" where
  "on_retry e = e\<lparr>retryCount := retryCount e + 1,
                  delays := delays e @ [1000 * (retryCount e + 1)]\<rparr>"

function execute_loop ::
  "('w \<Rightarrow> WorkflowStep \<Rightarrow> (thrown + 'r) \<times> 'w) \<Rightarrow> ('w, 'r) engine \<Rightarrow> ('w, 'r) engine" where
  "execute_loop executeStep e =
     (if currentStep (ctx e) < length (steps (ctx e)) \<and> retryCount e < maxRetries then
        (case executeStep (world e) (steps (ctx e) ! currentStep (ctx e)) of
           (Inr result, w) \<Rightarrow> execute_loop executeStep (on_success e result w)
         | (Inl error, w) \<Rightarrow>
             if isRetriableError error
             then execute_loop executeStep (on_retry (on_error e error w))
             else on_error e error w)
      else e)"
  by pat_completeness auto
termination
  by (relation "measures [\<lambda>(x, e). length (steps (ctx e)) - currentStep (ctx e),
                          \<lambda>(x, e). maxRetries - retryCount e]")
     (auto simp: on_success_def on_error_def on_retry_def)

declare execute_loop.simps [simp del]

text \<open>The returned object, together with the final state.\<close>

record 'r execute_result =
  out_success :: bool
  out_results :: "string \<rightharpoonup> 'r"
  out_errors :: "string \<rightharpoonup> string"
  out_completedSteps :: nat

definition execute ::
  "('w \<Rightarrow> WorkflowStep \<Rightarrow> (thrown + 'r) \<times> 'w) \<Rightarrow> 'w \<Rightarrow> 'r WorkflowContext
     \<Rightarrow> 'r execute_result \<times> ('w, 'r) engine" where
  "execute executeStep w c =
     (let e = execute_loop executeStep \<lparr>ctx = c, retryCount = 0, world = w, delays = []\<rparr>
      in (\<lparr>out_success = (currentStep (ctx e) = length (steps (ctx e))),
           out_results = results (ctx e), out_errors = errors (ctx e),
           out_completedSteps = currentStep (ctx e)\<rparr>, e))"

subsection \<open>The create_invoice step\<close>

text \<open>
  A step built by \<open>WorkflowBuilder\<close> has the type the schema infers, so
  \<open>CreateInvoiceStepSchema.parse\<close> returns it as it is. The schema puts no bound on
  \<open>amount\<close> or \<open>dueInDays\<close>.
\<close>

record create_invoice_output =
  r_invoiceId :: nat
  r_invoiceNumber :: string
  r_clientName :: string
  r_amount :: rat
  r_dueDate :: int

definition executeCreateInvoice ::
  "int \<Rightarrow> store \<Rightarrow> CreateInvoiceStep \<Rightarrow> (thrown + create_invoice_output) \<times> store" where
  "executeCreateInvoice now s validatedStep =
     (if take 1 (filter (\<lambda>u. user_id u = step_userId validatedStep) (users s)) = []
      then (Inl (Error ''User not found''), s)
      else
        (let (client, s1) =
               get_or_create_client s (step_userId validatedStep)
                 (step_clientName validatedStep);
             vatRate = 15 / 100;
             subtotal = step_amount validatedStep / (1 + vatRate);
             vatAmount = step_amount validatedStep - subtotal;
             invoiceCount =
               filter (\<lambda>i. invoice_userId i = step_userId validatedStep) (invoices s1);
             number = invoiceNumber_of (length invoiceCount);
             dueDate = addDays now (step_dueInDays validatedStep)
         in case insert_invoice s1 (step_userId validatedStep) (client_id client) number
                   ''ZAR'' True vatRate DRAFT dueDate of
              Inl e \<Rightarrow> (Inl e, s1)
            | Inr (newInvoice, s2) \<Rightarrow>
                (case insert_invoiceItem s2 (invoice_id newInvoice)
                        (step_description validatedStep) 1 subtotal subtotal of
                   Inl e \<Rightarrow> (Inl e, s2)
                 | Inr (item, s3) \<Rightarrow>
                     (Inr \<lparr>r_invoiceId = invoice_id newInvoice, r_invoiceNumber = number,
                           r_clientName = step_clientName validatedStep,
                           r_amount = step_amount validatedStep, r_dueDate = dueDate\<rparr>,
                      s3))))"

subsection \<open>generateFinancialSummary\<close>

record financial_summary =
  fs_startDate :: int
  fs_endDate :: int
  fs_revenue_total :: rat
  fs_invoiceCount :: nat
  fs_expenses_total :: rat
  fs_expenseCount :: nat
  fs_net :: rat
  fs_margin :: jsnum

text \<open>\<open>Number(invoice.invoice_items.lineTotal || 0)\<close> on a joined row.\<close>

definition lineTotal_Number :: "invoice_row \<times> item_row \<Rightarrow> rat" where
  "lineTotal_Number invoice =
     (case item_lineTotal (snd invoice) of None \<Rightarrow> 0 | Some v \<Rightarrow> Number_decimal 2 v)"

text \<open>Paid invoices of a user joined with their items, paid within the range.\<close>

definition paidInvoices_between ::
  "store \<Rightarrow> nat \<Rightarrow> int \<Rightarrow> int \<Rightarrow> (invoice_row \<times> item_row) list" where
  "paidInvoices_between s userId startDate endDate =
     filter (\<lambda>(i, it). invoice_id i = item_invoiceId it \<and> invoice_userId i = userId
                \<and> invoice_status i = PAID
                \<and> (case invoice_paidAt i of
                      None \<Rightarrow> False
                    | Some t \<Rightarrow> startDate \<le> t \<and> t \<le> endDate))
       (List.product (invoices s) (invoiceItems s))"

text \<open>The aggregation of the summary, from the two lists of fetched rows.\<close>

definition financialSummary ::
  "(invoice_row \<times> item_row) list \<Rightarrow> expense_row list \<Rightarrow> int \<Rightarrow> int \<Rightarrow> financial_summary" where
  "financialSummary paidInvoices expenseRows startDate endDate =
     (let totalRevenue = foldl (\<lambda>sum invoice. sum + lineTotal_Number invoice) 0 paidInvoices;
          totalExpenses =
            foldl (\<lambda>sum expense. sum + Number_decimal 2 (expense_amount expense)) 0 expenseRows;
          netProfit = totalRevenue - totalExpenses
      in \<lparr>fs_startDate = startDate, fs_endDate = endDate,
          fs_revenue_total = totalRevenue, fs_invoiceCount = length paidInvoices,
          fs_expenses_total = totalExpenses, fs_expenseCount = length expenseRows,
          fs_net = netProfit,
          fs_margin = (if totalRevenue > 0 then js_times (js_div netProfit totalRevenue) 100
                       else Num 0)\<rparr>)"

text \<open>
  Reading a \<open>const\<close> binding: a binding that is not yet initialised throws a
  \<open>ReferenceError\<close>.
\<close>

definition read_binding :: "string \<Rightarrow> 'a option \<Rightarrow> thrown + 'a" where
  "read_binding name v =
     (case v of
        None \<Rightarrow> Inl (Error (''Cannot access '' @ [CHR 0x27] @ name @ [CHR 0x27]
                              @ '' before initialization''))
      | Some x \<Rightarrow> Inr x)"

text \<open>
  The method of the workflow engine. Its second statement is
  \<open>const expenses = await db.select().from(expenses).where(...)\<close>: inside the method the
  name \<open>expenses\<close> is the constant this statement declares, not the imported table, and
  the initialiser reads it before it has a value.
\<close>

definition generateFinancialSummary ::
  "store \<Rightarrow> nat \<Rightarrow> int \<Rightarrow> int \<Rightarrow> thrown + financial_summary" where
  "generateFinancialSummary s userId startDate endDate =
     (let paidInvoices = paidInvoices_between s userId startDate endDate
      in case read_binding ''expenses'' (None :: expense_row list option) of
           Inl e \<Rightarrow> Inl e
         | Inr expensesTable \<Rightarrow>
             Inr (financialSummary paidInvoices
                    (filter (\<lambda>e. expense_userId e = userId \<and> startDate \<le> expense_date e
                                \<and> expense_date e \<le> endDate) expensesTable)
                    startDate endDate))"

section \<open>analyzeFinancialHealth (lib/ai/advanced-service.ts)\<close>

text \<open>
  The \<open>summary\<close> of the analysis, for the start date the period selects; \<open>None\<close> when
  the user is not found. The rows are filtered from the start date on, with no upper
  bound.
\<close>

definition analyzeFinancialHealth ::
  "store \<Rightarrow> nat \<Rightarrow> int \<Rightarrow> int \<Rightarrow> financial_summary option" where
  "analyzeFinancialHealth s userId startDate now =
     (case find (\<lambda>u. user_id u = userId) (users s) of
        None \<Rightarrow> None
      | Some user \<Rightarrow>
          (let paidInvoices =
                 filter (\<lambda>(i, it). invoice_id i = item_invoiceId it \<and> invoice_userId i = userId
                            \<and> invoice_status i = PAID
                            \<and> (case invoice_paidAt i of
                                  None \<Rightarrow> False
                                | Some t \<Rightarrow> startDate \<le> t))
                   (List.product (invoices s) (invoiceItems s));
               userExpenses =
                 filter (\<lambda>e. expense_userId e = userId \<and> startDate \<le> expense_date e)
                   (expenses s);
               totalRevenue =
                 foldl (\<lambda>sum invoice. sum + lineTotal_Number invoice) 0 paidInvoices;
               totalExpenses =
                 foldl (\<lambda>sum expense. sum + Number_decimal 2 (expense_amount expense)) 0
                   userExpenses;
               netProfit = totalRevenue - totalExpenses;
               profitMargin = (if totalRevenue > 0
                               then js_times (js_div netProfit totalRevenue) 100 else Num 0)
           in Some \<lparr>fs_startDate = startDate, fs_endDate = now,
                    fs_revenue_total = totalRevenue, fs_invoiceCount = length paidInvoices,
                    fs_expenses_total = totalExpenses, fs_expenseCount = length userExpenses,
                    fs_net = netProfit, fs_margin = profitMargin\<rparr>))"

section \<open>Definitions used in the proofs\<close>

text \<open>Reading a decimal numeral back, to show that \<open>String_nat\<close> is injective.\<close>

definition digit_val :: "char \<Rightarrow> nat" where
  "digit_val c = of_char c - 48"

definition parse_nat :: "string \<Rightarrow> nat" where
  "parse_nat s = foldl (\<lambda>acc c. 10 * acc + digit_val c) 0 s"




text \<open>
  Creating invoices one after the other for one user, and the ledgers in which every
  invoice belongs to that user and carries the number of the scheme for its position.
\<close>

fun createInvoices :: "int \<Rightarrow> store \<Rightarrow> nat \<Rightarrow> json list \<Rightarrow> store" where
  "createInvoices now s userId [] = s"
| "createInvoices now s userId (params # rest) =
     createInvoices now (snd (createInvoice now s userId params)) userId rest"

definition numbered_for :: "store \<Rightarrow> nat \<Rightarrow> bool" where
  "numbered_for s userId \<longleftrightarrow>
     list_all (\<lambda>i. invoice_userId i = userId) (invoices s)
     \<and> map invoiceNumber (invoices s) = map invoiceNumber_of [0..<length (invoices s)]"

text \<open>
  The ledgers in which the numbers of each user's invoices, in the order of creation,
  are those of the scheme.
\<close>

definition numbered_per_user :: "store \<Rightarrow> bool" where
  "numbered_per_user s \<longleftrightarrow>
     (\<forall>u. map invoiceNumber (filter (\<lambda>i. invoice_userId i = u) (invoices s))
            = map invoiceNumber_of
                [0..<length (filter (\<lambda>i. invoice_userId i = u) (invoices s))])"

subsection \<open>Example data\<close>

definition report_step :: WorkflowStep where
  "report_step = generate_report 1 month vat_report"

definition expense_step :: WorkflowStep where
  "expense_step = log_expense 1 450 ''transport fuel'' ''Transport'' None"

text \<open>
  Executors on a world that counts the calls: \<open>flaky_executor\<close> fails the second and
  the third call with a transient error, \<open>fatal_executor\<close> fails the second call with an
  error that is not transient, \<open>down_executor\<close> fails every call with a transient error.
\<close>

definition flaky_executor :: "nat \<Rightarrow> WorkflowStep \<Rightarrow> (thrown + nat) \<times> nat" where
  "flaky_executor w step =
     (if w = 1 \<or> w = 2 then Inl (Error ''Network timeout'') else Inr w, w + 1)"

definition fatal_executor :: "nat \<Rightarrow> WorkflowStep \<Rightarrow> (thrown + nat) \<times> nat" where
  "fatal_executor w step = (if w = 1 then Inl (Error ''User not found'') else Inr w, w + 1)"


text \<open>
  A ledger with two users; the parameters of the example scenario and the same with
  blank names; the rows that creating the invoice for user 1 at time 1000 writes; the
  ledger after that creation, and after the invoice was paid at time 5000.
\<close>

definition example_uuid_of :: "string \<Rightarrow> nat option" where
  "example_uuid_of = map_of [(''user-1'', 1), (''user-2'', 2), (''invoice-11'', 11)]"

definition two_users :: store where
  "two_users = \<lparr>users = [\<lparr>user_id = 1\<rparr>, \<lparr>user_id = 2\<rparr>], clients = [], invoices = [],
                 invoiceItems = [], payments = [], expenses = [], next_id = 10\<rparr>"

definition abc_params :: json where
  "abc_params = JObj [(''clientName'', JStr ''ABC Company''), (''amount'', JNum 500),
                      (''description'', JStr ''website design'')]"

definition blank_params :: json where
  "blank_params = JObj [(''clientName'', JStr ''''), (''amount'', JNum 500),
                        (''description'', JStr '''')]"

definition abc_invoice :: invoice_row where
  "abc_invoice = \<lparr>invoice_id = 11, invoice_userId = 1, invoice_clientId = 10,
                   invoiceNumber = ''INV-0001'', invoice_currency = ''ZAR'',
                   invoice_vatIncluded = True, invoice_vatRate = 1500,
                   invoice_status = DRAFT, invoice_dueDate = 2592001000,
                   invoice_paidAt = None\<rparr>"

definition abc_client :: client_row where
  "abc_client = \<lparr>client_id = 10, client_userId = 1, client_name = ''ABC Company''\<rparr>"

definition one_invoice :: store where
  "one_invoice =
     \<lparr>users = [\<lparr>user_id = 1\<rparr>, \<lparr>user_id = 2\<rparr>],
      clients = [abc_client],
      invoices = [abc_invoice],
      invoiceItems = [\<lparr>item_id = 12, item_invoiceId = 11,
                       item_description = ''website design'', item_quantity = 1,
                       item_unitPrice = 43478, item_lineTotal = Some 43478\<rparr>],
      payments = [], expenses = [], next_id = 13\<rparr>"

definition paid_invoice :: store where
  "paid_invoice =
     one_invoice\<lparr>invoices := [abc_invoice\<lparr>invoice_status := PAID, invoice_paidAt := Some 5000\<rparr>],
                 payments := [\<lparr>payment_id = 13, payment_invoiceId = 11, payment_amount = 43478,
                               payment_method = ''Manual'', payment_paidAt = 5000\<rparr>],
                 next_id := 14\<rparr>"


definition abc_amounts :: amounts where
  "abc_amounts = \<lparr>amt_subtotal = 21739 / 50, amt_vatAmount = 3261 / 50, amt_total = 500\<rparr>"

definition abc_step :: CreateInvoiceStep where
  "abc_step = \<lparr>step_userId = 2, step_clientName = ''ABC Company'', step_amount = 500,
                step_description = ''website design'', step_dueInDays = 30\<rparr>"

section \<open>Decimal numerals and keys\<close>

lemma digit_val_digit_char: "d < 10 \<Longrightarrow> digit_val (digit_char d) = d"
proof -
  assume "d < 10"
  then have "d \<in> {0, 1, 2, 3, 4, 5, 6, 7, 8, 9}" by auto
  then show ?thesis by (auto simp: digit_val_def digit_char_def)
qed

lemma parse_nat_snoc: "parse_nat (s @ [c]) = 10 * parse_nat s + digit_val c"
  by (simp add: parse_nat_def)

lemma parse_nat_String_nat: "parse_nat (String_nat n) = n"
proof (induction n rule: String_nat.induct)
  case (1 n)
  show ?case
  proof (cases "n < 10")
    case True
    then show ?thesis
      by (subst String_nat.simps) (simp add: parse_nat_def digit_val_digit_char)
  next
    case False
    then have "parse_nat (String_nat n)
        = 10 * parse_nat (String_nat (n div 10)) + digit_val (digit_char (n mod 10))"
      by (subst String_nat.simps) (simp add: parse_nat_snoc)
    with False 1 show ?thesis by (simp add: digit_val_digit_char)
  qed
qed

lemma String_nat_inj: "String_nat m = String_nat n \<Longrightarrow> m = n"
  by (metis parse_nat_String_nat)

lemma step_key_inj [simp]: "step_key i = step_key j \<longleftrightarrow> i = j"
  by (auto simp: step_key_def dest: String_nat_inj)

lemma parse_nat_zeros: "parse_nat (replicate k (CHR ''0'') @ s) = parse_nat s"
proof -
  have "foldl (\<lambda>acc c. 10 * acc + digit_val c) 0 (replicate k (CHR ''0'')) = 0"
    by (induction k) (simp_all add: digit_val_def)
  then show ?thesis by (simp add: parse_nat_def)
qed

lemma invoiceNumber_of_inj: "invoiceNumber_of m = invoiceNumber_of n \<Longrightarrow> m = n"
proof -
  assume "invoiceNumber_of m = invoiceNumber_of n"
  then have "parse_nat (padStart 4 (CHR ''0'') (String_nat (m + 1)))
      = parse_nat (padStart 4 (CHR ''0'') (String_nat (n + 1)))"
    by (simp add: invoiceNumber_of_def)
  then show ?thesis by (simp add: padStart_def parse_nat_zeros parse_nat_String_nat)
qed

section \<open>The intent resolver\<close>

text \<open>
  C10. When the call to the language model throws, for any user and message,
  \<open>processQuery\<close> returns normally, with intent HELP, confidence 0, no parameters and
  the fixed apology as response: the fault does not reach the caller.
\<close>

theorem processQuery_degrades_to_help:
  assumes "generateObject (''User query: '' @ [dquote] @ message @ [dquote]) = Inl error"
  shows "processQuery generateObject userId message =
           Inr \<lparr>qr_intent = ''HELP'', qr_confidence = 0, qr_parameters = [],
                qr_response = ''I had trouble understanding your request. Please try again.'',
                qr_actions = []\<rparr>"
  using assms by (simp add: processQuery_def)

theorem processQuery_degrades_to_help_witness:
  "(\<lambda>prompt. Inl (Error ''Request timed out''))
       (''User query: '' @ [dquote] @ ''invoice ABC for R500'' @ [dquote])
     = (Inl (Error ''Request timed out'') :: thrown + query_result)
   \<and> processQuery (\<lambda>prompt. Inl (Error ''Request timed out'')) 7 ''invoice ABC for R500'' =
       Inr \<lparr>qr_intent = ''HELP'', qr_confidence = 0, qr_parameters = [],
            qr_response = ''I had trouble understanding your request. Please try again.'',
            qr_actions = []\<rparr>"
  using processQuery_degrades_to_help
          [of "\<lambda>prompt. Inl (Error ''Request timed out'')" "''invoice ABC for R500''"
              "Error ''Request timed out''" 7]
  by simp

section \<open>VAT arithmetic of invoice creation\<close>

text \<open>
  C5. For every positive amount \<open>a\<close> and every rate \<open>r\<close> strictly between 0 and 1, over
  the rationals: the inclusive split is \<open>subtotal = a / (1 + r)\<close>, \<open>vat = a - subtotal\<close>
  and recombines to \<open>a\<close> exactly (which is also the total); the exclusive split is
  \<open>subtotal = a\<close>, \<open>vat = a * r\<close>, and its total is \<open>subtotal + vat = a * (1 + r)\<close>.
\<close>

theorem vat_split_recombines:
  assumes "0 < a" and "0 < r" and "r < 1"
  shows "(case invoice_amounts r True a of
            (subtotal, vat, tot) \<Rightarrow>
              subtotal = a / (1 + r) \<and> vat = a - subtotal \<and> subtotal + vat = a \<and> tot = a)
       \<and> (case invoice_amounts r False a of
            (subtotal, vat, tot) \<Rightarrow>
              subtotal = a \<and> vat = a * r \<and> tot = subtotal + vat \<and> tot = a * (1 + r))"
  by (simp add: invoice_amounts_def Let_def distrib_left)

theorem vat_split_recombines_witness:
  "(0 :: rat) < 500 \<and> (0 :: rat) < 15 / 100 \<and> (15 / 100 :: rat) < 1
   \<and> (case invoice_amounts (15 / 100) True 500 of
         (subtotal, vat, tot) \<Rightarrow>
           subtotal = 500 / (1 + 15 / 100) \<and> vat = 500 - subtotal \<and> subtotal + vat = 500
           \<and> tot = 500)
   \<and> (case invoice_amounts (15 / 100) False 500 of
         (subtotal, vat, tot) \<Rightarrow>
           subtotal = 500 \<and> vat = 500 * (15 / 100) \<and> tot = subtotal + vat
           \<and> tot = 500 * (1 + 15 / 100))"
  using vat_split_recombines [of 500 "15 / 100"] by (simp add: invoice_amounts_def Let_def)

section \<open>Runs of the workflow engine\<close>

subsection \<open>The loop invariant\<close>







lemmas run_defs = execute_def new_WorkflowEngine_def Let_def execute_loop.simps
  on_success_def on_error_def on_retry_def maxRetries_def

lemma retriable_examples:
  "isRetriableError (Error ''Network timeout'')"
  "isRetriableError (Error ''Connection refused'')"
  "\<not> isRetriableError (Error ''User not found'')"
  by code_simp+

subsection \<open>Three steps\<close>

text \<open>
  C3. A workflow of three steps. If the first step succeeds, the second fails twice with
  a retriable error and succeeds at its third attempt, and the third succeeds, then
  \<open>completedSteps\<close> is 3 and \<open>success\<close> is true. If the first step succeeds and the
  second fails with an error that is not retriable, then \<open>completedSteps\<close> is 1,
  \<open>success\<close> is false and the result of the first step is in the results map.
\<close>

theorem workflow_three_steps:
  "(executeStep w0 s1 = (Inr r1, w1)
      \<and> executeStep w1 s2 = (Inl e1, w2) \<and> isRetriableError e1
      \<and> executeStep w2 s2 = (Inl e2, w3) \<and> isRetriableError e2
      \<and> executeStep w3 s2 = (Inr r2, w4)
      \<and> executeStep w4 s3 = (Inr r3, w5)
    \<longrightarrow> out_completedSteps (fst (execute executeStep w0 (new_WorkflowEngine u [s1, s2, s3]))) = 3
      \<and> out_success (fst (execute executeStep w0 (new_WorkflowEngine u [s1, s2, s3]))))
   \<and> (executeStep' v0 s1 = (Inr q1, v1)
      \<and> executeStep' v1 s2 = (Inl e, v2) \<and> \<not> isRetriableError e
    \<longrightarrow> out_completedSteps (fst (execute executeStep' v0 (new_WorkflowEngine u [s1, s2, s3]))) = 1
      \<and> \<not> out_success (fst (execute executeStep' v0 (new_WorkflowEngine u [s1, s2, s3])))
      \<and> out_results (fst (execute executeStep' v0 (new_WorkflowEngine u [s1, s2, s3])))
           (step_key 0) = Some q1)"
  by (simp add: run_defs)

text \<open>Both cases on executors that count their calls.\<close>

theorem workflow_three_steps_witness:
  "flaky_executor 0 report_step = (Inr 0, 1)
   \<and> flaky_executor 1 expense_step = (Inl (Error ''Network timeout''), 2)
   \<and> isRetriableError (Error ''Network timeout'')
   \<and> flaky_executor 2 expense_step = (Inl (Error ''Network timeout''), 3)
   \<and> flaky_executor 3 expense_step = (Inr 3, 4)
   \<and> flaky_executor 4 report_step = (Inr 4, 5)
   \<and> out_completedSteps (fst (execute flaky_executor 0
         (new_WorkflowEngine 1 [report_step, expense_step, report_step]))) = 3
   \<and> out_success (fst (execute flaky_executor 0
         (new_WorkflowEngine 1 [report_step, expense_step, report_step])))
   \<and> fatal_executor 0 report_step = (Inr 0, 1)
   \<and> fatal_executor 1 expense_step = (Inl (Error ''User not found''), 2)
   \<and> \<not> isRetriableError (Error ''User not found'')
   \<and> out_completedSteps (fst (execute fatal_executor 0
         (new_WorkflowEngine 1 [report_step, expense_step, report_step]))) = 1
   \<and> \<not> out_success (fst (execute fatal_executor 0
         (new_WorkflowEngine 1 [report_step, expense_step, report_step])))
   \<and> out_results (fst (execute fatal_executor 0
         (new_WorkflowEngine 1 [report_step, expense_step, report_step]))) (step_key 0) = Some 0"
  using workflow_three_steps
          [of flaky_executor 0 report_step 0 1 expense_step "Error ''Network timeout''" 2
              "Error ''Network timeout''" 3 3 4 report_step 4 5 1
              fatal_executor 0 0 1 "Error ''User not found''" 2]
        retriable_examples
  by (simp add: flaky_executor_def fatal_executor_def)

subsection \<open>Backoff\<close>

text \<open>
  Three retriable failures in a row at the first step, for any executor: the step is not
  run a fourth time, the run stops at it, and the three waits are 1000, 2000 and 3000.
\<close>

lemma three_retriable_failures:
  assumes "executeStep w0 s1 = (Inl e1, w1)" and "isRetriableError e1"
      and "executeStep w1 s1 = (Inl e2, w2)" and "isRetriableError e2"
      and "executeStep w2 s1 = (Inl e3, w3)" and "isRetriableError e3"
  shows "delays (snd (execute executeStep w0 (new_WorkflowEngine u (s1 # rest))))
           = [1000, 2000, 3000]"
    and "world (snd (execute executeStep w0 (new_WorkflowEngine u (s1 # rest)))) = w3"
    and "out_completedSteps (fst (execute executeStep w0 (new_WorkflowEngine u (s1 # rest)))) = 0"
    and "\<not> out_success (fst (execute executeStep w0 (new_WorkflowEngine u (s1 # rest))))"
    and "out_errors (fst (execute executeStep w0 (new_WorkflowEngine u (s1 # rest)))) (step_key 0)
           = Some (errorMessage e3)"
  using assms by (simp_all add: run_defs)


subsection \<open>Results and errors of a run\<close>




section \<open>Decimal columns\<close>

lemma round_half_away_nonneg: "0 \<le> x \<Longrightarrow> round_half_away x = \<lfloor>x + 1 / 2\<rfloor>"
  by (simp add: round_half_away_def)

lemma round_half_away_bounds:
  assumes "0 \<le> x"
  shows "0 \<le> round_half_away x"
    and "of_int (round_half_away x) \<le> x + 1 / 2"
    and "x - 1 / 2 < of_int (round_half_away x)"
proof -
  have eq: "round_half_away x = \<lfloor>x + 1 / 2\<rfloor>" using assms by (rule round_half_away_nonneg)
  show "0 \<le> round_half_away x" unfolding eq using assms by simp
  show "of_int (round_half_away x) \<le> x + 1 / 2" unfolding eq by (rule of_int_floor_le)
  have "x + 1 / 2 < of_int \<lfloor>x + 1 / 2\<rfloor> + 1" by linarith
  then show "x - 1 / 2 < of_int (round_half_away x)" unfolding eq by simp
qed

lemma to_decimal_12_2:
  assumes "0 \<le> x" and "x < 10 ^ 9"
  shows "to_decimal 12 2 x = Inr (round_half_away (x * 100))"
proof -
  have nn: "0 \<le> x * 100" using assms by simp
  have "of_int (round_half_away (x * 100)) \<le> x * 100 + 1 / 2"
    using round_half_away_bounds(2)[OF nn] .
  also have "\<dots> < 10 ^ 12" using assms by simp
  finally have "(of_int (round_half_away (x * 100)) :: rat) < of_int (10 ^ 12)" by simp
  then have "round_half_away (x * 100) < 10 ^ 12" by (simp only: of_int_less_iff)
  moreover have "0 \<le> round_half_away (x * 100)" using round_half_away_bounds(1)[OF nn] .
  ultimately show ?thesis by (simp add: to_decimal_def Let_def)
qed

lemma to_decimal_vatRate: "to_decimal 5 4 (15 / 100) = Inr 1500"
proof -
  have "\<lfloor>3001 / 2 :: rat\<rfloor> = 1500" by (rule floor_unique) simp_all
  then show ?thesis by (simp add: to_decimal_def round_half_away_def Let_def)
qed




section \<open>Creating an invoice\<close>

lemma get_or_create_client_frame:
  "invoices (snd (get_or_create_client s userId name)) = invoices s"
  "invoiceItems (snd (get_or_create_client s userId name)) = invoiceItems s"
  "payments (snd (get_or_create_client s userId name)) = payments s"
  "expenses (snd (get_or_create_client s userId name)) = expenses s"
  "users (snd (get_or_create_client s userId name)) = users s"
  "next_id s \<le> next_id (snd (get_or_create_client s userId name))"
  by (simp_all add: get_or_create_client_def insert_client_def Let_def split: list.splits)

lemma CreateInvoiceSchema_parse_Inr:
  assumes "CreateInvoiceSchema_parse params = Inr vp"
  obtains kvs where "params = JObj kvs"
    and "z_string (property kvs ''clientName'') = Some (p_clientName vp)"
    and "z_number_positive (property kvs ''amount'') = Some (p_amount vp)"
    and "z_string (property kvs ''description'') = Some (p_description vp)"
    and "z_default 30 z_number_positive (property kvs ''dueInDays'') = Some (p_dueInDays vp)"
    and "z_default True z_boolean (property kvs ''vatIncluded'') = Some (p_vatIncluded vp)"
proof (cases params)
  case (JObj kvs)
  with assms that[of kvs] show ?thesis
    by (auto simp: CreateInvoiceSchema_parse_def Let_def split: option.splits)
qed (use assms in \<open>simp_all add: CreateInvoiceSchema_parse_def\<close>)

lemma z_number_positive_Some: "z_number_positive v = Some x \<Longrightarrow> 0 < x"
  by (auto simp: z_number_positive_def split: json.splits if_splits)

lemma CreateInvoiceSchema_parse_positive:
  assumes "CreateInvoiceSchema_parse params = Inr vp"
  shows "0 < p_amount vp" and "0 < p_dueInDays vp"
proof -
  from assms obtain kvs where
    a: "z_number_positive (property kvs ''amount'') = Some (p_amount vp)" and
    d: "z_default 30 z_number_positive (property kvs ''dueInDays'') = Some (p_dueInDays vp)"
    by (rule CreateInvoiceSchema_parse_Inr)
  from a show "0 < p_amount vp" by (rule z_number_positive_Some)
  from d show "0 < p_dueInDays vp"
    by (cases "property kvs ''dueInDays''")
       (auto simp: z_default_def dest: z_number_positive_Some)
qed

lemma invoice_subtotal_bounds:
  assumes "0 < a"
  shows "0 \<le> fst (invoice_amounts (15 / 100) incl a)"
    and "fst (invoice_amounts (15 / 100) incl a) \<le> a"
  using assms by (simp_all add: invoice_amounts_def Let_def)

text \<open>What a successful creation writes.\<close>

lemma createInvoice_try_ok:
  assumes parse: "CreateInvoiceSchema_parse params = Inr vp"
      and user: "userId \<in> user_id ` set (users s)"
      and free: "invoiceNumber_of (length (filter (\<lambda>i. invoice_userId i = userId) (invoices s)))
                   \<notin> invoiceNumber ` set (invoices s)"
      and fits: "p_amount vp < 10 ^ 9"
  obtains client s1 s' amts invoice item where
        "createInvoice_try now s userId params = (Inr (CreateInvoiceOk invoice client amts), s')"
    and "get_or_create_client s userId (p_clientName vp) = (client, s1)"
    and "invoice = \<lparr>invoice_id = next_id s1, invoice_userId = userId,
                     invoice_clientId = client_id client,
                     invoiceNumber = invoiceNumber_of
                       (length (filter (\<lambda>i. invoice_userId i = userId) (invoices s))),
                     invoice_currency = ''ZAR'', invoice_vatIncluded = p_vatIncluded vp,
                     invoice_vatRate = 1500, invoice_status = DRAFT,
                     invoice_dueDate = addDays now (p_dueInDays vp), invoice_paidAt = None\<rparr>"
    and "item = \<lparr>item_id = next_id s1 + 1, item_invoiceId = next_id s1,
                  item_description = p_description vp, item_quantity = 1,
                  item_unitPrice = round_half_away
                    (fst (invoice_amounts (15 / 100) (p_vatIncluded vp) (p_amount vp)) * 100),
                  item_lineTotal = Some (round_half_away
                    (fst (invoice_amounts (15 / 100) (p_vatIncluded vp) (p_amount vp)) * 100))\<rparr>"
    and "invoices s' = invoices s @ [invoice]"
    and "invoiceItems s' = invoiceItems s @ [item]"
    and "payments s' = payments s" and "users s' = users s" and "expenses s' = expenses s"
    and "next_id s' = next_id s1 + 2" and "next_id s \<le> next_id s1"
proof -
  define r :: rat where "r = 15 / 100"
  obtain client s1 where cs: "get_or_create_client s userId (p_clientName vp) = (client, s1)"
    by (cases "get_or_create_client s userId (p_clientName vp)")
  have fr: "invoices s1 = invoices s" "invoiceItems s1 = invoiceItems s"
    "payments s1 = payments s" "users s1 = users s" "expenses s1 = expenses s"
    "next_id s \<le> next_id s1"
    using get_or_create_client_frame[of s userId "p_clientName vp"] by (simp_all add: cs)
  obtain subtotal vatAmount tot
    where am: "invoice_amounts r (p_vatIncluded vp) (p_amount vp) = (subtotal, vatAmount, tot)"
    by (cases "invoice_amounts r (p_vatIncluded vp) (p_amount vp)")
  have pos: "0 < p_amount vp" using parse by (rule CreateInvoiceSchema_parse_positive)
  have sub: "0 \<le> subtotal" "subtotal < 10 ^ 9"
    using invoice_subtotal_bounds[OF pos, of "p_vatIncluded vp", folded r_def] fits
    by (simp_all add: am)
  have dec: "to_decimal 12 2 subtotal = Inr (round_half_away (subtotal * 100))"
    using sub by (rule to_decimal_12_2)
  have rate: "to_decimal 5 4 r = Inr 1500"
    unfolding r_def by (rule to_decimal_vatRate)
  have usr: "filter (\<lambda>u. user_id u = userId) (users s) \<noteq> []"
    using user by (auto simp: filter_empty_conv)
  define invoice where "invoice =
     \<lparr>invoice_id = next_id s1, invoice_userId = userId, invoice_clientId = client_id client,
      invoiceNumber = invoiceNumber_of
        (length (filter (\<lambda>i. invoice_userId i = userId) (invoices s))),
      invoice_currency = ''ZAR'', invoice_vatIncluded = p_vatIncluded vp,
      invoice_vatRate = 1500, invoice_status = DRAFT,
      invoice_dueDate = addDays now (p_dueInDays vp), invoice_paidAt = None\<rparr>"
  define item where "item =
     \<lparr>item_id = next_id s1 + 1, item_invoiceId = next_id s1,
      item_description = p_description vp, item_quantity = 1,
      item_unitPrice = round_half_away (subtotal * 100),
      item_lineTotal = Some (round_half_away (subtotal * 100))\<rparr>"
  define s' where "s' = s1\<lparr>invoices := invoices s @ [invoice],
                             invoiceItems := invoiceItems s @ [item],
                             next_id := next_id s1 + 2\<rparr>"
  define amts where "amts = \<lparr>amt_subtotal = toFixed2 subtotal,
                              amt_vatAmount = toFixed2 vatAmount, amt_total = toFixed2 tot\<rparr>"
  have run: "createInvoice_try now s userId params = (Inr (CreateInvoiceOk invoice client amts), s')"
    unfolding createInvoice_try_def r_def[symmetric]
    using free
    by (simp add: parse usr cs am fr insert_invoice_def rate insert_invoiceItem_def dec
                  Let_def invoice_def item_def s'_def amts_def del: One_nat_def)
  have sub_eq: "subtotal = fst (invoice_amounts (15 / 100) (p_vatIncluded vp) (p_amount vp))"
    using am by (simp add: r_def)
  show ?thesis
    by (rule that[OF run cs invoice_def item_def[unfolded sub_eq]])
       (simp_all add: s'_def fr)
qed

lemma createInvoice_of_try:
  "createInvoice_try now s userId params = (Inr r, s') \<Longrightarrow> createInvoice now s userId params = (r, s')"
  by (simp add: createInvoice_def)


lemma createInvoice_rejects_invalid:
  "CreateInvoiceSchema_parse params = Inl e \<Longrightarrow>
     createInvoice now s userId params
       = (CreateInvoiceFailed
            ''Sorry, there was an error creating your invoice. Please try again.'', s)"
  by (simp add: createInvoice_def createInvoice_try_def)

lemma createInvoice_numbered:
  assumes num: "numbered_for s userId"
      and user: "userId \<in> user_id ` set (users s)"
      and parse: "CreateInvoiceSchema_parse params = Inr vp"
      and fits: "p_amount vp < 10 ^ 9"
  shows "numbered_for (snd (createInvoice now s userId params)) userId"
    and "length (invoices (snd (createInvoice now s userId params))) = length (invoices s) + 1"
    and "users (snd (createInvoice now s userId params)) = users s"
    and "success (fst (createInvoice now s userId params))"
proof -
  have own: "filter (\<lambda>i. invoice_userId i = userId) (invoices s) = invoices s"
    using num by (simp add: numbered_for_def list_all_iff)
  have nums: "invoiceNumber ` set (invoices s) = invoiceNumber_of ` {0..<length (invoices s)}"
  proof -
    have "set (map invoiceNumber (invoices s)) = set (map invoiceNumber_of [0..<length (invoices s)])"
      using num by (simp only: numbered_for_def)
    then show ?thesis by simp
  qed
  have free: "invoiceNumber_of (length (filter (\<lambda>i. invoice_userId i = userId) (invoices s)))
                \<notin> invoiceNumber ` set (invoices s)"
    unfolding own nums using invoiceNumber_of_inj by fastforce
  from parse user free fits obtain client t s' amts invoice item where
        run: "createInvoice_try now s userId params
                = (Inr (CreateInvoiceOk invoice client amts), s')"
    and "get_or_create_client s userId (p_clientName vp) = (client, t)"
    and inv_def: "invoice = \<lparr>invoice_id = next_id t, invoice_userId = userId,
                     invoice_clientId = client_id client,
                     invoiceNumber = invoiceNumber_of
                       (length (filter (\<lambda>i. invoice_userId i = userId) (invoices s))),
                     invoice_currency = ''ZAR'', invoice_vatIncluded = p_vatIncluded vp,
                     invoice_vatRate = 1500, invoice_status = DRAFT,
                     invoice_dueDate = addDays now (p_dueInDays vp), invoice_paidAt = None\<rparr>"
    and "item = \<lparr>item_id = next_id t + 1, item_invoiceId = next_id t,
                  item_description = p_description vp, item_quantity = 1,
                  item_unitPrice = round_half_away
                    (fst (invoice_amounts (15 / 100) (p_vatIncluded vp) (p_amount vp)) * 100),
                  item_lineTotal = Some (round_half_away
                    (fst (invoice_amounts (15 / 100) (p_vatIncluded vp) (p_amount vp)) * 100))\<rparr>"
    and invs: "invoices s' = invoices s @ [invoice]"
    and "invoiceItems s' = invoiceItems s @ [item]"
    and "payments s' = payments s"
    and usrs: "users s' = users s" and "expenses s' = expenses s"
    and "next_id s' = next_id t + 2"
    and "next_id s \<le> next_id t"
    by (rule createInvoice_try_ok[where now = now])
  have res: "createInvoice now s userId params = (CreateInvoiceOk invoice client amts, s')"
    using run by (rule createInvoice_of_try)
  have no: "invoiceNumber invoice = invoiceNumber_of (length (invoices s))"
    and ow: "invoice_userId invoice = userId"
    by (simp_all add: inv_def own)
  show "numbered_for (snd (createInvoice now s userId params)) userId"
    using num by (simp add: res invs numbered_for_def no ow)
  show "length (invoices (snd (createInvoice now s userId params))) = length (invoices s) + 1"
    by (simp add: res invs)
  show "users (snd (createInvoice now s userId params)) = users s"
    by (simp add: res usrs)
  show "success (fst (createInvoice now s userId params))"
    by (simp add: res)
qed

text \<open>
  In a ledger whose invoices all belong to one user and carry the numbers of the scheme
  (in particular a ledger with no invoice), creating invoices one after the other from
  valid parameters numbers them on, without gap or repeat.
\<close>

lemma sequential_numbers:
  assumes "numbered_for s userId"
      and "userId \<in> user_id ` set (users s)"
      and "list_all (\<lambda>params. \<exists>vp. CreateInvoiceSchema_parse params = Inr vp
                                   \<and> p_amount vp < 10 ^ 9) paramsList"
  shows "map invoiceNumber (invoices (createInvoices now s userId paramsList))
           = map invoiceNumber_of [0..<length (invoices s) + length paramsList]"
  using assms
proof (induction paramsList arbitrary: s)
  case Nil
  then show ?case by (simp add: numbered_for_def)
next
  case (Cons params rest)
  from Cons.prems(3) obtain vp where
    vp: "CreateInvoiceSchema_parse params = Inr vp" "p_amount vp < 10 ^ 9"
    by auto
  note step = createInvoice_numbered[OF Cons.prems(1,2) vp, of now]
  have "map invoiceNumber
          (invoices (createInvoices now (snd (createInvoice now s userId params)) userId rest))
        = map invoiceNumber_of
            [0..<length (invoices (snd (createInvoice now s userId params))) + length rest]"
    using Cons.prems(2,3) step by (intro Cons.IH) simp_all
  then show ?case by (simp add: step(2))
qed

lemma sequential_numbers_distinct:
  "distinct (map invoiceNumber_of [0..<n])"
  by (simp add: distinct_map inj_on_def) (metis invoiceNumber_of_inj)

text \<open>The create_invoice step numbers in the same way.\<close>

lemma executeCreateInvoice_number:
  assumes user: "step_userId step \<in> user_id ` set (users s)"
      and free: "invoiceNumber_of
                   (length (filter (\<lambda>i. invoice_userId i = step_userId step) (invoices s)))
                   \<notin> invoiceNumber ` set (invoices s)"
      and amount: "0 \<le> step_amount step" "step_amount step < 10 ^ 9"
  shows "\<exists>out. fst (executeCreateInvoice now s step) = Inr out
           \<and> r_invoiceNumber out = invoiceNumber_of
                (length (filter (\<lambda>i. invoice_userId i = step_userId step) (invoices s)))
           \<and> map invoiceNumber (invoices (snd (executeCreateInvoice now s step)))
               = map invoiceNumber (invoices s) @ [r_invoiceNumber out]"
proof -
  define r :: rat where "r = 15 / 100"
  obtain client s1 where
    cs: "get_or_create_client s (step_userId step) (step_clientName step) = (client, s1)"
    by (cases "get_or_create_client s (step_userId step) (step_clientName step)")
  have fr: "invoices s1 = invoices s"
    using get_or_create_client_frame(1)[of s "step_userId step" "step_clientName step"]
    by (simp add: cs)
  have sub: "0 \<le> step_amount step / (1 + r)" "step_amount step / (1 + r) < 10 ^ 9"
  proof -
    show "0 \<le> step_amount step / (1 + r)" using amount(1) by (simp add: r_def)
    have "step_amount step / (1 + r) \<le> step_amount step"
      using amount(1) by (simp add: r_def field_simps)
    with amount(2) show "step_amount step / (1 + r) < 10 ^ 9" by simp
  qed
  have dec: "to_decimal 12 2 (step_amount step / (1 + r))
               = Inr (round_half_away (step_amount step / (1 + r) * 100))"
    using sub by (rule to_decimal_12_2)
  have rate: "to_decimal 5 4 r = Inr 1500"
    unfolding r_def by (rule to_decimal_vatRate)
  have usr: "filter (\<lambda>u. user_id u = step_userId step) (users s) \<noteq> []"
    using user by (auto simp: filter_empty_conv)
  show ?thesis
    unfolding executeCreateInvoice_def r_def[symmetric]
    using free
    by (simp add: usr cs fr insert_invoice_def rate insert_invoiceItem_def dec Let_def
             del: One_nat_def)
qed

lemma numbered_per_user_cong:
  "invoices s' = invoices s \<Longrightarrow> numbered_per_user s' = numbered_per_user s"
  by (simp add: numbered_per_user_def)

lemma insert_invoice_numbering:
  assumes "numbered_per_user s"
      and "insert_invoice s userId clientId
             (invoiceNumber_of (length (filter (\<lambda>i. invoice_userId i = userId) (invoices s))))
             cur vatIncl rate st due = Inr (row, s')"
  shows "numbered_per_user s'"
  using assms
  by (auto simp: insert_invoice_def numbered_per_user_def Let_def
           split: sum.splits if_splits)

lemma insert_invoiceItem_invoices:
  "insert_invoiceItem s invoiceId descr qty up lt = Inr (row, s') \<Longrightarrow> invoices s' = invoices s"
  by (auto simp: insert_invoiceItem_def Let_def split: sum.splits)

text \<open>
  Whatever a call of \<open>createInvoice\<close> does, the numbers of each user's invoices, in the
  order of creation, stay INV-0001, INV-0002, ... without gap or repeat.
\<close>

lemma createInvoice_keeps_numbering:
  assumes num: "numbered_per_user s"
  shows "numbered_per_user (snd (createInvoice now s userId params))"
proof (cases "CreateInvoiceSchema_parse params")
  case (Inl e)
  then show ?thesis using num by (simp add: createInvoice_def createInvoice_try_def)
next
  case (Inr vp)
  show ?thesis
  proof (cases "filter (\<lambda>u. user_id u = userId) (users s) = []")
    case True
    then show ?thesis using num Inr by (simp add: createInvoice_def createInvoice_try_def)
  next
    case False
    obtain client s1 where cs: "get_or_create_client s userId (p_clientName vp) = (client, s1)"
      by (cases "get_or_create_client s userId (p_clientName vp)")
    have fr: "invoices s1 = invoices s"
      using get_or_create_client_frame(1)[of s userId "p_clientName vp"] by (simp add: cs)
    have num1: "numbered_per_user s1"
      using num by (simp add: numbered_per_user_cong[OF fr])
    define r :: rat where "r = 15 / 100"
    obtain subtotal vatAmount tot where
      am: "invoice_amounts r (p_vatIncluded vp) (p_amount vp) = (subtotal, vatAmount, tot)"
      by (cases "invoice_amounts r (p_vatIncluded vp) (p_amount vp)")
    define ins where
      "ins = insert_invoice s1 userId (client_id client)
               (invoiceNumber_of (length (filter (\<lambda>i. invoice_userId i = userId) (invoices s1))))
               ''ZAR'' (p_vatIncluded vp) r DRAFT (addDays now (p_dueInDays vp))"
    show ?thesis
    proof (cases ins)
      case (Inl e)
      have "snd (createInvoice now s userId params) = s1"
        unfolding createInvoice_def createInvoice_try_def r_def[symmetric]
        by (simp only: Inr cs am Let_def sum.case prod.case False take_eq_Nil
                       Inl[unfolded ins_def]) simp
      then show ?thesis using num1 by simp
    next
      case insr: (Inr pair)
      obtain newInvoice s2 where pair: "pair = (newInvoice, s2)" by (cases pair)
      have num2: "numbered_per_user s2"
        by (rule insert_invoice_numbering[OF num1 insr[unfolded ins_def pair]])
      show ?thesis
      proof (cases "insert_invoiceItem s2 (invoice_id newInvoice) (p_description vp) 1
                      subtotal subtotal")
        case (Inl e)
        have "snd (createInvoice now s userId params) = s2"
          unfolding createInvoice_def createInvoice_try_def r_def[symmetric]
          by (simp only: Inr cs am Let_def sum.case prod.case False take_eq_Nil
                         insr[unfolded ins_def pair] Inl) simp
        then show ?thesis using num2 by simp
      next
        case itr: (Inr pair')
        obtain item s3 where pair': "pair' = (item, s3)" by (cases pair')
        have eq3: "invoices s3 = invoices s2"
          using itr unfolding pair' by (rule insert_invoiceItem_invoices)
        have num3: "numbered_per_user s3"
          using num2 by (simp add: numbered_per_user_cong[OF eq3])
        have "snd (createInvoice now s userId params) = s3"
          unfolding createInvoice_def createInvoice_try_def r_def[symmetric]
          by (simp only: Inr cs am Let_def sum.case prod.case False take_eq_Nil
                         insr[unfolded ins_def pair] itr[unfolded pair']) simp
        then show ?thesis using num3 by simp
      qed
    qed
  qed
qed

text \<open>
  C9, at a parameter map with an empty client name and an empty description: the schema
  of \<open>AIService.createInvoice\<close> accepts it (its \<open>clientName\<close> and \<open>description\<close> are
  plain \<open>z.string()\<close>), and the handler reports success and writes a client with an
  empty name and an invoice whose item has an empty description.
\<close>

theorem createInvoice_accepts_blank_names:
  "CreateInvoiceSchema_parse blank_params
     = Inr \<lparr>p_clientName = [], p_amount = 500, p_description = [], p_dueInDays = 30,
            p_vatIncluded = True\<rparr>
   \<and> success (fst (createInvoice 1000 two_users 1 blank_params))
   \<and> map client_name (clients (snd (createInvoice 1000 two_users 1 blank_params))) = [[]]
   \<and> map invoiceNumber (invoices (snd (createInvoice 1000 two_users 1 blank_params)))
       = [''INV-0001'']
   \<and> map item_description (invoiceItems (snd (createInvoice 1000 two_users 1 blank_params)))
       = [[]]"
  by code_simp

text \<open>
  C1, for a second user: user 1 creates the first invoice and gets INV-0001. User 2 has
  no invoice, so the number computed for user 2 is INV-0001 again; the insert violates
  the unique constraint on \<open>invoice_number\<close>, \<open>createInvoice\<close> reports failure, the
  create_invoice step throws an error that is not retriable, and user 2 has no invoice.
\<close>

theorem numbering_collides_across_users:
  "createInvoice 1000 two_users 1 abc_params
     = (CreateInvoiceOk abc_invoice abc_client abc_amounts, one_invoice)
   \<and> invoiceNumber abc_invoice = ''INV-0001''
   \<and> invoiceNumber_of (length (filter (\<lambda>i. invoice_userId i = 2) (invoices one_invoice)))
       = ''INV-0001''
   \<and> \<not> success (fst (createInvoice 2000 one_invoice 2 abc_params))
   \<and> filter (\<lambda>i. invoice_userId i = 2)
         (invoices (snd (createInvoice 2000 one_invoice 2 abc_params))) = []
   \<and> fst (executeCreateInvoice 2000 one_invoice abc_step) = Inl (Error unique_violation)
   \<and> invoices (snd (executeCreateInvoice 2000 one_invoice abc_step)) = invoices one_invoice
   \<and> \<not> isRetriableError (Error unique_violation)"
  by code_simp

section \<open>Marking an invoice paid\<close>

lemma filter_key_unique:
  "distinct (map f xs) \<Longrightarrow> x \<in> set xs \<Longrightarrow> P x
     \<Longrightarrow> filter (\<lambda>y. f y = f x \<and> P y) xs = [x]"
proof (induction xs)
  case Nil
  then show ?case by simp
next
  case (Cons y ys)
  show ?case
  proof (cases "y = x")
    case True
    have "f x \<notin> f ` set ys" using Cons.prems(1) True by simp
    then have "\<forall>z \<in> set ys. f z \<noteq> f x" by (metis imageI)
    then have "filter (\<lambda>z. f z = f x \<and> P z) ys = []"
      by (simp add: filter_empty_conv)
    with True Cons.prems(3) show ?thesis by simp
  next
    case False
    with Cons.prems have "x \<in> set ys" "f y \<noteq> f x" by auto
    with Cons show ?thesis by simp
  qed
qed

lemma find_invoice:
  assumes "distinct (map invoice_id (invoices s))" and "invoice \<in> set (invoices s)"
  shows "filter (\<lambda>i. invoice_id i = invoice_id invoice
                     \<and> invoice_userId i = invoice_userId invoice) (invoices s) = [invoice]"
  using filter_key_unique[of invoice_id "invoices s" invoice
          "\<lambda>i. invoice_userId i = invoice_userId invoice"] assms
  by simp

lemma MarkPaidSchema_parse_ok:
  "property kvs ''userId'' = JStr user_text \<Longrightarrow> uuid_of user_text = Some userId
     \<Longrightarrow> MarkPaidSchema_parse uuid_of (JObj kvs) = Inr userId"
  by (simp add: MarkPaidSchema_parse_def)

lemma mark_paid_not_found:
  assumes "uuid_of id_param = Some invoiceId"
      and "property kvs ''userId'' = JStr user_text"
      and "uuid_of user_text = Some userId"
      and "\<forall>i \<in> set (invoices s). \<not> (invoice_id i = invoiceId \<and> invoice_userId i = userId)"
  shows "POST_mark_paid uuid_of now s (Some (JObj kvs)) id_param
           = (Json (ErrorBody ''Invoice not found'') 404, s)"
proof -
  have "filter (\<lambda>i. invoice_id i = invoiceId \<and> invoice_userId i = userId) (invoices s) = []"
    using assms(4) by (auto simp: filter_empty_conv)
  then show ?thesis
    using assms(1)
    by (simp add: POST_mark_paid_def POST_mark_paid_try_def
          MarkPaidSchema_parse_ok[where uuid_of = uuid_of, OF assms(2,3)])
qed




text \<open>
  C2. For an invoice of the table whose status is PAID, a mark-paid request with the
  identifier of the invoice and the identifier of its owner gets the response 400
  "Invoice is already paid" and leaves the store as it is: no payment is added, and the
  status and \<open>paidAt\<close> of the invoice stay. The response is neither the not-found
  response (404 "Invoice not found") nor a success response (200).
\<close>

theorem mark_paid_twice_conflict:
  assumes "distinct (map invoice_id (invoices s))"
      and "invoice \<in> set (invoices s)"
      and "invoice_status invoice = PAID"
      and "uuid_of id_param = Some (invoice_id invoice)"
      and "property kvs ''userId'' = JStr user_text"
      and "uuid_of user_text = Some (invoice_userId invoice)"
  shows "POST_mark_paid uuid_of now s (Some (JObj kvs)) id_param
           = (Json (ErrorBody ''Invoice is already paid'') 400, s)
       \<and> payments (snd (POST_mark_paid uuid_of now s (Some (JObj kvs)) id_param)) = payments s
       \<and> invoices (snd (POST_mark_paid uuid_of now s (Some (JObj kvs)) id_param)) = invoices s
       \<and> fst (POST_mark_paid uuid_of now s (Some (JObj kvs)) id_param)
           \<noteq> Json (ErrorBody ''Invoice not found'') 404
       \<and> (\<forall>a t. fst (POST_mark_paid uuid_of now s (Some (JObj kvs)) id_param)
                   \<noteq> Json (PaidBody (invoice_id invoice) a t) 200)"
proof -
  have "POST_mark_paid uuid_of now s (Some (JObj kvs)) id_param
           = (Json (ErrorBody ''Invoice is already paid'') 400, s)"
    using assms(3,4)
    by (simp add: POST_mark_paid_def POST_mark_paid_try_def
          MarkPaidSchema_parse_ok[where uuid_of = uuid_of, OF assms(5,6)] find_invoice[OF assms(1,2)])
  then show ?thesis by simp
qed

text \<open>The invoice of the example, paid at time 5000 and marked paid again at 9000.\<close>

theorem mark_paid_twice_conflict_witness:
  "distinct (map invoice_id (invoices paid_invoice))
   \<and> abc_invoice\<lparr>invoice_status := PAID, invoice_paidAt := Some 5000\<rparr>
        \<in> set (invoices paid_invoice)
   \<and> invoice_status (abc_invoice\<lparr>invoice_status := PAID, invoice_paidAt := Some 5000\<rparr>) = PAID
   \<and> example_uuid_of ''invoice-11''
        = Some (invoice_id (abc_invoice\<lparr>invoice_status := PAID, invoice_paidAt := Some 5000\<rparr>))
   \<and> property [(''userId'', JStr ''user-1'')] ''userId'' = JStr ''user-1''
   \<and> example_uuid_of ''user-1''
        = Some (invoice_userId (abc_invoice\<lparr>invoice_status := PAID, invoice_paidAt := Some 5000\<rparr>))
   \<and> POST_mark_paid example_uuid_of 9000 paid_invoice
         (Some (JObj [(''userId'', JStr ''user-1'')])) ''invoice-11''
        = (Json (ErrorBody ''Invoice is already paid'') 400, paid_invoice)
   \<and> length (payments (snd (POST_mark_paid example_uuid_of 9000 paid_invoice
         (Some (JObj [(''userId'', JStr ''user-1'')])) ''invoice-11''))) = 1"
proof -
  have h: "distinct (map invoice_id (invoices paid_invoice))"
      "abc_invoice\<lparr>invoice_status := PAID, invoice_paidAt := Some 5000\<rparr>
        \<in> set (invoices paid_invoice)"
      "invoice_status (abc_invoice\<lparr>invoice_status := PAID, invoice_paidAt := Some 5000\<rparr>) = PAID"
      "example_uuid_of ''invoice-11''
        = Some (invoice_id (abc_invoice\<lparr>invoice_status := PAID, invoice_paidAt := Some 5000\<rparr>))"
      "property [(''userId'', JStr ''user-1'')] ''userId'' = JStr ''user-1''"
      "example_uuid_of ''user-1''
        = Some (invoice_userId (abc_invoice\<lparr>invoice_status := PAID, invoice_paidAt := Some 5000\<rparr>))"
      "length (payments paid_invoice) = 1"
    by code_simp+
  show ?thesis
    using mark_paid_twice_conflict
            [where s = paid_invoice and uuid_of = example_uuid_of
               and invoice = "abc_invoice\<lparr>invoice_status := PAID, invoice_paidAt := Some 5000\<rparr>"
               and id_param = "''invoice-11''" and kvs = "[(''userId'', JStr ''user-1'')]"
               and user_text = "''user-1''" and now = 9000, OF h(1-6)]
          h
    by simp
qed




section \<open>The financial summary\<close>

text \<open>
  The guard on the margin: the aggregation returns margin 0 when the revenue is 0, and
  a finite margin always; so does \<open>analyzeFinancialHealth\<close>, which returns a summary
  for every user of the table.
\<close>

lemma financialSummary_margin_zero:
  assumes "fs_revenue_total (financialSummary paidInvoices expenseRows startDate endDate) = 0"
  shows "fs_margin (financialSummary paidInvoices expenseRows startDate endDate) = Num 0"
  using assms by (simp add: financialSummary_def Let_def)

lemma financialSummary_margin_finite:
  "\<exists>m. fs_margin (financialSummary paidInvoices expenseRows startDate endDate) = Num m"
  by (simp add: financialSummary_def Let_def js_div_def)

lemma analyzeFinancialHealth_margin_zero:
  assumes "analyzeFinancialHealth s userId startDate now = Some summary"
      and "fs_revenue_total summary = 0"
  shows "fs_margin summary = Num 0"
  using assms by (auto simp: analyzeFinancialHealth_def Let_def split: option.splits)

lemma analyzeFinancialHealth_returns:
  "userId \<in> user_id ` set (users s) \<Longrightarrow>
     \<exists>summary m. analyzeFinancialHealth s userId startDate now = Some summary
                \<and> fs_margin summary = Num m"
  by (auto simp: analyzeFinancialHealth_def Let_def js_div_def find_None_iff
           split: option.splits)

text \<open>
  C8, on the method of the workflow engine: for every store, user and range (so also
  when the revenue is 0), \<open>generateFinancialSummary\<close> throws before it computes a
  total, and returns no summary and no margin.
\<close>

theorem generateFinancialSummary_throws:
  "generateFinancialSummary s userId startDate endDate
     = Inl (Error (''Cannot access '' @ [CHR 0x27] @ ''expenses'' @ [CHR 0x27]
                    @ '' before initialization''))"
  by (simp add: generateFinancialSummary_def read_binding_def)

end
